theory Spec2Isabelle
  imports Main "HOL-Library.AList" "HOL-Library.Sublist"
begin

section \<open>JavaScript strings used by the join-link resolver\<close>

text \<open>
  A JavaScript string is modelled as a \<open>string\<close>: a list of code units, here those below 256.
  The three library methods that \<open>handleJoinDocument\<close> calls are written out:
  \<open>String.prototype.trim\<close>, \<open>includes\<close> and \<open>split\<close> with a string separator.
\<close>

definition is_space :: "char \<Rightarrow> bool" where
  \<comment> \<open>WhiteSpace and LineTerminator code units below 256: TAB, LF, VT, FF, CR, SP, NBSP.\<close>
  "is_space c = (c \<in> {CHR 0x09, CHR 0x0A, CHR 0x0B, CHR 0x0C, CHR 0x0D, CHR 0x20, CHR 0xA0})"

definition trim :: "string \<Rightarrow> string" where
  "trim s = rev (dropWhile is_space (rev (dropWhile is_space s)))"

fun includes_str :: "string \<Rightarrow> string \<Rightarrow> bool" where
  \<comment> \<open>\<open>s.includes(sub)\<close>: \<open>sub\<close> occurs in \<open>s\<close> at some index.\<close>
  "includes_str [] sub = (sub = [])"
| "includes_str (c # cs) sub = (prefix sub (c # cs) \<or> includes_str cs sub)"

fun split_from :: "string \<Rightarrow> string \<Rightarrow> string \<Rightarrow> string list" where
  \<comment> \<open>Scan left to right; \<open>acc\<close> holds, reversed, the piece read since the last separator.\<close>
  "split_from sep acc [] = [rev acc]"
| "split_from sep acc (c # cs) =
     (if sep \<noteq> [] \<and> prefix sep (c # cs)
      then rev acc # split_from sep [] (drop (length sep - 1) cs)
      else split_from sep (c # acc) cs)"

definition split_js :: "string \<Rightarrow> string \<Rightarrow> string list" where
  \<comment> \<open>\<open>s.split(sep)\<close> for a string separator; an empty separator splits into code units.\<close>
  "split_js s sep = (if sep = [] then map (\<lambda>c. [c]) s else split_from sep [] s)"


definition nth_opt :: "'a list \<Rightarrow> nat \<Rightarrow> 'a option" where
  \<comment> \<open>Array indexing \<open>xs[i]\<close>; \<open>None\<close> is \<open>undefined\<close>.\<close>
  "nth_opt xs i = (if i < length xs then Some (xs ! i) else None)"

section \<open>Data of the component\<close>

type_synonym peer = nat
type_synonym stream = nat
type_synonym call = nat

text \<open>
  A document as the REST collaborator returns it. \<open>doc_ref\<close> stands for the identity of the
  JavaScript object: React compares the dependency \<open>selectedDoc\<close> by identity, and the
  program never mutates a document object, so equal records are the same object.
\<close>

record doc =
  doc_ref :: nat
  doc_id :: string
  doc_title :: string
  doc_content :: string

text \<open>The \<open>video\<close> element created by \<open>addPeerStream\<close>, with the properties the code sets.\<close>

record video =
  srcObject :: "stream option"
  autoplay :: bool
  playsInline :: bool
  muted :: bool

text \<open>
  What the component does to the outside world, recorded in program order: socket emissions,
  REST requests (with the bearer token), media and peer-link operations, dialogs and console.
\<close>

datatype effect =
    Emit_join_document string
  | Emit_edit_document string string
  | Emit_join_video string string
  | Fetch_documents string
  | Fetch_document string string
  | Post_document string string
  | Put_document string string string
  | Delete_document string string
  | Get_user_media
  | New_peer peer
  | Peer_call peer string stream call
  | Call_answer call stream
  | Call_close call
  | Peer_destroy peer
  | Tracks_stop stream
  | Alert string
  | Console_error string
  | Console_log string

text \<open>
  An awaited request either rejects (network failure, or a body that \<open>res.json()\<close> cannot
  parse) with an error message, or resolves to a response with a status and a parsed body.
  The body of a document request is read only through \<open>content\<close>, \<open>title\<close> and \<open>_id\<close>;
  a body without these fields, which would read as \<open>undefined\<close>, is not represented.
\<close>

datatype 'a fetched = Rejected string | Response nat 'a

definition ok :: "nat \<Rightarrow> bool" where
  "ok st = (200 \<le> st \<and> st \<le> 299)"

datatype media = Media_failed | Media_ok stream

text \<open>
  The state: the \<open>useState\<close> variables and \<open>useRef\<close> cells of \<open>App\<close> under their source
  names (the user object is represented by its user name; the authentication form is left
  out), the two items of \<open>localStorage\<close>, and what the runtime holds for the component:
  \<^item> \<open>urlDoc\<close>: the \<open>doc\<close> parameter of \<open>window.location.search\<close>;
  \<^item> \<open>teardownEnv\<close>: the values of \<open>myPeer\<close>, \<open>myStream\<close> and \<open>peers\<close> seen by the
    clean-up closure that React currently holds for the last effect. Its dependency list is
    \<open>[selectedDoc]\<close>, so the closure is the one made by the render in which \<open>selectedDoc\<close>
    last changed;
  \<^item> \<open>docUpdatedListeners\<close>: the listeners registered for \<open>document-updated\<close>;
  \<^item> \<open>pendingSaves\<close>: the invocations of \<open>handleEditorChange\<close> suspended at their \<open>await\<close>;
  \<^item> \<open>peerIds\<close>: \<open>peer.id\<close> of the Peer objects that have opened;
  \<^item> \<open>trace\<close>: the effects so far.
  An object used as a dictionary is an association list in insertion order.
\<close>

record state =
  token :: string
  user :: "string option"
  storedToken :: "string option"
  storedUser :: "string option"
  documents :: "doc list"
  selectedDoc :: "doc option"
  content :: string
  isRemote :: bool
  joinLink :: string
  joinError :: string
  joinSuccess :: string
  inCall :: bool
  myPeer :: "peer option"
  myStream :: "stream option"
  peers :: "(string \<times> call) list"
  videoRefs :: "(string \<times> video) list"
  urlDoc :: "string option"
  teardownEnv :: "peer option \<times> stream option \<times> (string \<times> call) list"
  docUpdatedListeners :: nat
  pendingSaves :: nat
  peerIds :: "(peer \<times> string) list"
  trace :: "effect list"

definition emit :: "effect list \<Rightarrow> state \<Rightarrow> state" where
  "emit es s = s\<lparr>trace := trace s @ es\<rparr>"

section \<open>Effects of a render\<close>

text \<open>
  React runs, after a render, the clean-up functions of every effect whose dependencies
  changed and then the effects themselves, in the order of the hooks. A clean-up function is
  the closure returned when its effect last ran, so it reads the state variables of that
  render; a \<open>ref\<close> is read at the time of the call.
\<close>

definition documentUpdated :: "string \<Rightarrow> state \<Rightarrow> state" where
  \<comment> \<open>The listener of \<open>document-updated\<close>.\<close>
  "documentUpdated newContent s = (s\<lparr>isRemote := True\<rparr>)\<lparr>content := newContent\<rparr>"

definition joinDocumentEffect :: "state \<Rightarrow> state" where
  "joinDocumentEffect s =
     (case selectedDoc s of
        None \<Rightarrow> s
      | Some d \<Rightarrow>
          (emit [Emit_join_document (doc_id d)] s)
            \<lparr>content := doc_content d, docUpdatedListeners := Suc (docUpdatedListeners s)\<rparr>)"

definition joinDocumentCleanup :: "state \<Rightarrow> state" where
  \<comment> \<open>\<open>socket.off('document-updated')\<close> removes every listener of the event.\<close>
  "joinDocumentCleanup s = s\<lparr>docUpdatedListeners := 0\<rparr>"

definition releases ::
  "peer option \<times> stream option \<times> (string \<times> call) list \<Rightarrow> effect list" where
  \<comment> \<open>The first three statements of the clean-up closure of the last effect, on the
      values of \<open>myPeer\<close>, \<open>myStream\<close> and \<open>peers\<close> that the closure captured.\<close>
  "releases env =
     (case env of (mp, ms, ps) \<Rightarrow>
        (case mp of None \<Rightarrow> [] | Some p \<Rightarrow> [Peer_destroy p])
        @ (case ms of None \<Rightarrow> [] | Some m \<Rightarrow> [Tracks_stop m])
        @ map (\<lambda>kv. Call_close (snd kv)) ps)"

definition teardown ::
  "peer option \<times> stream option \<times> (string \<times> call) list \<Rightarrow> state \<Rightarrow> state" where
  \<comment> \<open>The clean-up closure of the last effect, run with the values it captured.\<close>
  "teardown env s =
     (emit (releases env) s)
       \<lparr>videoRefs := [], inCall := False, peers := [], myPeer := None, myStream := None\<rparr>"

definition selectedDocChanged :: "state \<Rightarrow> state" where
  \<comment> \<open>After a render with a new \<open>selectedDoc\<close>: both clean-ups, then both effects.\<close>
  "selectedDocChanged s =
     (joinDocumentEffect (teardown (teardownEnv s) (joinDocumentCleanup s)))
       \<lparr>teardownEnv := (myPeer s, myStream s, peers s)\<rparr>"

definition autoSelect :: "state \<Rightarrow> doc option" where
  \<comment> \<open>The first effect (dependencies \<open>token\<close>, \<open>documents\<close>): the document it selects, if any.\<close>
  "autoSelect s =
     (if token s = [] then None
      else case urlDoc s of
             None \<Rightarrow> None
           | Some i \<Rightarrow> if i \<noteq> [] \<and> documents s \<noteq> []
                       then find (\<lambda>d. doc_id d = i) (documents s) else None)"

definition commit :: "bool \<Rightarrow> state \<Rightarrow> state \<Rightarrow> state" where
  \<comment> \<open>The effects of the render that follows a handler turn: \<open>before\<close> is the state of the
      previous render, \<open>s\<close> the state after the handler's updates. \<open>setDocuments\<close> always
      stores a new array, so the handler tells whether it called it. When the first effect
      calls \<open>handleSelectDoc\<close>, its request is issued at once and the selection takes
      effect in one more render.\<close>
  "commit documentsChanged before s =
     (let selChanged = (selectedDoc s \<noteq> selectedDoc before);
          s1 = (if selChanged then teardown (teardownEnv s) (joinDocumentCleanup s) else s);
          auto = (if documentsChanged then autoSelect s else None);
          s2 = (case auto of None \<Rightarrow> s1
                | Some d \<Rightarrow> emit [Fetch_document (doc_id d) (token s)] s1);
          s3 = (if selChanged
                then (joinDocumentEffect s2)\<lparr>teardownEnv := (myPeer s, myStream s, peers s)\<rparr>
                else s2)
      in case auto of
           None \<Rightarrow> s3
         | Some d \<Rightarrow> if selectedDoc s3 = Some d then s3
                     else selectedDocChanged (s3\<lparr>selectedDoc := Some d\<rparr>))"

definition mount :: "string option \<Rightarrow> string option \<Rightarrow> string option \<Rightarrow> state" where
  \<comment> \<open>The first render, from \<open>localStorage\<close> and the page URL, and its effects: only the
      request for the document list does anything.\<close>
  "mount tok usr url =
     (let t = (case tok of None \<Rightarrow> [] | Some x \<Rightarrow> x)
      in \<lparr>token = t, user = usr, storedToken = tok, storedUser = usr, documents = [],
          selectedDoc = None, content = [], isRemote = False, joinLink = [], joinError = [],
          joinSuccess = [], inCall = False, myPeer = None, myStream = None, peers = [],
          videoRefs = [], urlDoc = url, teardownEnv = (None, None, []),
          docUpdatedListeners = 0, pendingSaves = 0, peerIds = [],
          trace = (if t = [] then [] else [Fetch_documents t])\<rparr>)"

section \<open>Handlers\<close>

text \<open>
  Each handler is one function per turn of the event loop: an \<open>async\<close> handler is cut at its
  \<open>await\<close> into the part that runs when it is called and the part that runs when the
  awaited request settles (suffix \<open>_resume\<close>, taking the outcome). Variables that the
  second part reads from the closure of the call are its parameters. Updates of one turn
  are applied together and followed by \<open>commit\<close>.
\<close>

subsection \<open>Authentication and documents\<close>

definition logoutUpdates :: "state \<Rightarrow> state" where
  "logoutUpdates s =
     s\<lparr>token := [], user := None, storedToken := None, storedUser := None,
       selectedDoc := None, content := []\<rparr>"

definition handleLogout :: "state \<Rightarrow> state" where
  "handleLogout s = commit False s (logoutUpdates s)"

definition documents_resume :: "doc list option fetched \<Rightarrow> state \<Rightarrow> state" where
  \<comment> \<open>The promise chain of the effect that requests the document list; a body that is
      not an array is \<open>None\<close>.\<close>
  "documents_resume r s =
     (case r of
        Rejected msg \<Rightarrow>
          commit True s ((emit [Console_error ''Failed to fetch documents:''] s)\<lparr>documents := []\<rparr>)
      | Response st body \<Rightarrow>
          if st = 401 then commit True s ((logoutUpdates s)\<lparr>documents := []\<rparr>)
          else commit True s (s\<lparr>documents := (case body of None \<Rightarrow> [] | Some ds \<Rightarrow> ds)\<rparr>))"

definition handleSelectDoc :: "doc \<Rightarrow> state \<Rightarrow> state" where
  "handleSelectDoc d s =
     commit False s ((emit [Fetch_document (doc_id d) (token s)] s)\<lparr>selectedDoc := Some d\<rparr>)"

definition handleSelectDoc_resume :: "doc fetched \<Rightarrow> state \<Rightarrow> state" where
  "handleSelectDoc_resume r s =
     (case r of
        Response st data \<Rightarrow> s\<lparr>content := doc_content data\<rparr>
      | Rejected msg \<Rightarrow>
          (emit [Console_error ''Failed to fetch document content:''] s)\<lparr>content := []\<rparr>)"

definition handleCreateDoc :: "string option \<Rightarrow> state \<Rightarrow> state" where
  \<comment> \<open>The argument is what \<open>prompt\<close> returned.\<close>
  "handleCreateDoc title s =
     (case title of
        None \<Rightarrow> s
      | Some t \<Rightarrow> if t = [] then s else emit [Post_document t (token s)] s)"

definition handleCreateDoc_resume :: "doc fetched \<Rightarrow> state \<Rightarrow> state" where
  "handleCreateDoc_resume r s =
     (case r of
        Response st d \<Rightarrow> commit True s (s\<lparr>documents := documents s @ [d]\<rparr>)
      | Rejected msg \<Rightarrow> emit [Console_error ''Failed to create document:''] s)"

definition handleDeleteDoc :: "string \<Rightarrow> state \<Rightarrow> state" where
  "handleDeleteDoc docId s = emit [Delete_document docId (token s)] s"

definition handleDeleteDoc_resume ::
  "doc option \<Rightarrow> string \<Rightarrow> unit fetched \<Rightarrow> state \<Rightarrow> state" where
  \<comment> \<open>\<open>sel\<close> is the \<open>selectedDoc\<close> of the render in which the handler was called.\<close>
  "handleDeleteDoc_resume sel docId r s =
     (let s1 = (case r of
                  Rejected msg \<Rightarrow> emit [Console_error ''Failed to delete document:''] s
                | Response st u \<Rightarrow> s);
          s2 = s1\<lparr>documents := filter (\<lambda>d. doc_id d \<noteq> docId) (documents s1)\<rparr>;
          s3 = (case sel of
                  None \<Rightarrow> s2
                | Some d \<Rightarrow> if doc_id d = docId then s2\<lparr>selectedDoc := None\<rparr> else s2)
      in commit True s s3)"

subsection \<open>Joining by link\<close>

definition extractDocId :: "string \<Rightarrow> string option" where
  \<comment> \<open>The \<open>if\<close> chain that assigns \<open>docId\<close>.\<close>
  "extractDocId link =
     (if includes_str link ''?doc='' then nth_opt (split_js link ''?doc='') 1
      else if includes_str link ''/documents/'' then nth_opt (split_js link ''/documents/'') 1
      else Some (trim link))"

definition invalidLink :: string where
  "invalidLink = ''Invalid link format. Please check the shared link.''"

definition resolveJoinLink :: "string \<Rightarrow> string + string" where
  \<comment> \<open>The link parsing of \<open>handleJoinDocument\<close> with its two checks: \<open>Inl\<close> is the message
      shown as \<open>joinError\<close>, \<open>Inr\<close> the document identifier that is requested.\<close>
  "resolveJoinLink link =
     (if trim link = [] then Inl ''Please enter a shared link''
      else case extractDocId link of
             None \<Rightarrow> Inl invalidLink
           | Some docId \<Rightarrow> if docId = [] then Inl invalidLink else Inr docId)"

definition handleJoinDocument :: "state \<Rightarrow> state" where
  "handleJoinDocument s =
     (let s1 = s\<lparr>joinError := [], joinSuccess := []\<rparr>
      in if trim (joinLink s) = [] then s1\<lparr>joinError := ''Please enter a shared link''\<rparr>
         else case resolveJoinLink (joinLink s) of
                Inl msg \<Rightarrow> (emit [Console_error ''Join document error:''] s1)\<lparr>joinError := msg\<rparr>
              | Inr docId \<Rightarrow> emit [Fetch_document docId (token s)] s1)"

definition joinFailure :: "nat \<Rightarrow> string" where
  "joinFailure st =
     (if st = 404 then ''Document not found. Check if the link is correct.''
      else if st = 401 then ''You do not have access to this document.''
      else ''Failed to join document. Please try again.'')"

definition handleJoinDocument_resume :: "string \<Rightarrow> doc fetched \<Rightarrow> state \<Rightarrow> state" where
  \<comment> \<open>\<open>docId\<close> is the identifier the first part requested.\<close>
  "handleJoinDocument_resume docId r s =
     (case r of
        Rejected msg \<Rightarrow>
          (emit [Console_error ''Join document error:''] s)
            \<lparr>joinError := (if msg = [] then ''Failed to join document'' else msg)\<rparr>
      | Response st data \<Rightarrow>
          if \<not> ok st
          then (emit [Console_error ''Join document error:''] s)\<lparr>joinError := joinFailure st\<rparr>
          else commit False s
                 ((emit [Emit_join_document docId, Console_log ''Successfully joined document:''] s)
                    \<lparr>selectedDoc := Some data, content := doc_content data, joinLink := [],
                     joinSuccess := ''Successfully joined: '' @ doc_title data\<rparr>))"

subsection \<open>Editing\<close>

definition handleEditorChange :: "string \<Rightarrow> state \<Rightarrow> state" where
  "handleEditorChange v s =
     (let s1 = s\<lparr>content := v\<rparr>
      in case selectedDoc s of
           None \<Rightarrow> s1
         | Some d \<Rightarrow>
             if \<not> isRemote s1
             then (emit [Emit_edit_document (doc_id d) v, Put_document (doc_id d) v (token s)] s1)
                    \<lparr>pendingSaves := Suc (pendingSaves s1)\<rparr>
             else s1\<lparr>isRemote := False\<rparr>)"

definition handleEditorChange_resume :: "unit fetched \<Rightarrow> state \<Rightarrow> state" where
  \<comment> \<open>After the awaited \<open>PUT\<close>: the \<open>catch\<close> branch logs, then the last statement runs.\<close>
  "handleEditorChange_resume r s =
     (let s1 = (case r of
                  Rejected msg \<Rightarrow> emit [Console_error ''Failed to save document changes:''] s
                | Response st u \<Rightarrow> s)
      in s1\<lparr>isRemote := False, pendingSaves := pendingSaves s1 - 1\<rparr>)"

subsection \<open>Video call\<close>

definition addPeerStream :: "string \<Rightarrow> stream \<Rightarrow> bool \<Rightarrow> state \<Rightarrow> state" where
  "addPeerStream peerId st isSelf s =
     (let el = (case map_of (videoRefs s) peerId of
                  None \<Rightarrow> \<lparr>srcObject = None, autoplay = True, playsInline = True, muted = isSelf\<rparr>
                | Some v \<Rightarrow> v)
      in s\<lparr>videoRefs := AList.update peerId (el\<lparr>srcObject := Some st\<rparr>) (videoRefs s)\<rparr>)"

definition handleJoinVideoCall :: "state \<Rightarrow> state" where
  "handleJoinVideoCall s =
     (if inCall s \<or> selectedDoc s = None then s
      else (emit [Get_user_media] s)\<lparr>inCall := True\<rparr>)"

definition handleJoinVideoCall_resume :: "media \<Rightarrow> peer \<Rightarrow> state \<Rightarrow> state" where
  \<comment> \<open>After \<open>getUserMedia\<close> settled; \<open>p\<close> is the object that \<open>new Peer\<close> returns. The four
      listeners it registers are the next four definitions.\<close>
  "handleJoinVideoCall_resume m p s =
     (case m of
        Media_failed \<Rightarrow> (emit [Alert ''Could not access camera/microphone.''] s)\<lparr>inCall := False\<rparr>
      | Media_ok st \<Rightarrow>
          addPeerStream ''me'' st True ((emit [New_peer p] s)\<lparr>myStream := Some st, myPeer := Some p\<rparr>))"

definition peerOpen :: "doc \<Rightarrow> peer \<Rightarrow> string \<Rightarrow> state \<Rightarrow> state" where
  \<comment> \<open>\<open>peer.on('open')\<close>: the peer has its identifier; \<open>d\<close> is the \<open>selectedDoc\<close> of the call
      to \<open>handleJoinVideoCall\<close>.\<close>
  "peerOpen d p ident s =
     (emit [Emit_join_video (doc_id d) ident] s)\<lparr>peerIds := AList.update p ident (peerIds s)\<rparr>"

definition peerCall :: "stream \<Rightarrow> call \<Rightarrow> string \<Rightarrow> state \<Rightarrow> state" where
  \<comment> \<open>\<open>peer.on('call')\<close>: an incoming call \<open>c\<close> whose \<open>call.peer\<close> is \<open>remote\<close>.\<close>
  "peerCall st c remote s =
     (emit [Call_answer c st] s)\<lparr>peers := AList.update remote c (peers s)\<rparr>"

definition userJoinedVideo ::
  "peer \<Rightarrow> stream \<Rightarrow> call \<Rightarrow> string option \<Rightarrow> state \<Rightarrow> state" where
  \<comment> \<open>The listener of \<open>user-joined-video\<close> registered by the join that made peer \<open>p\<close> with
      stream \<open>st\<close>; \<open>c\<close> is what \<open>peer.call\<close> returns and \<open>None\<close> a payload without \<open>peerId\<close>.\<close>
  "userJoinedVideo p st c peerId s =
     (case peerId of
        None \<Rightarrow> s
      | Some i \<Rightarrow>
          if i = [] \<or> Some i = map_of (peerIds s) p then s
          else (emit [Peer_call p i st c] s)\<lparr>peers := AList.update i c (peers s)\<rparr>)"

definition key_of :: "string option \<Rightarrow> string" where
  \<comment> \<open>A property key: \<open>undefined\<close> is converted to the string \<open>undefined\<close>.\<close>
  "key_of k = (case k of None \<Rightarrow> ''undefined'' | Some i \<Rightarrow> i)"

definition userLeftVideo :: "string option \<Rightarrow> state \<Rightarrow> state" where
  \<comment> \<open>The listener of \<open>user-left-video\<close>.\<close>
  "userLeftVideo peerId s =
     (let k = key_of peerId;
          s1 = (case map_of (videoRefs s) k of
                  None \<Rightarrow> s
                | Some v \<Rightarrow> s\<lparr>videoRefs := AList.delete k (videoRefs s)\<rparr>)
      in case map_of (peers s1) k of
           None \<Rightarrow> s1
         | Some c \<Rightarrow> (emit [Call_close c] s1)\<lparr>peers := AList.delete k (peers s1)\<rparr>)"

definition callStream :: "string \<Rightarrow> stream \<Rightarrow> state \<Rightarrow> state" where
  \<comment> \<open>\<open>call.on('stream')\<close> of a call with peer \<open>peerId\<close>.\<close>
  "callStream peerId userVideoStream s = addPeerStream peerId userVideoStream False s"

section \<open>Runs of the component\<close>

text \<open>
  A run is a list of turns of the event loop: a user action, a socket or peer event, or the
  settling of an awaited request. \<open>DocumentUpdated\<close> runs every listener registered for
  the event, and \<open>SaveSettled\<close> resumes a suspended call of the local-edit handler if there
  is one. The listeners that a successful join of the call registers are never removed; an
  event for one of them carries the variables of its closure (the peer and the stream of
  that join, the document selected then), and every \<open>_resume\<close> event the variables of the
  call it resumes.
\<close>

datatype event =
    Logout
  | DocumentsSettled "doc list option fetched"
  | SelectDoc doc
  | SelectDocSettled "doc fetched"
  | CreateDoc "string option"
  | CreateDocSettled "doc fetched"
  | DeleteDoc string
  | DeleteDocSettled "doc option" string "unit fetched"
  | TypeJoinLink string
  | JoinDocument
  | JoinDocumentSettled string "doc fetched"
  | EditorChange string
  | SaveSettled "unit fetched"
  | DocumentUpdated string
  | JoinVideoCall
  | MediaSettled media peer
  | PeerOpen doc peer string
  | PeerCall stream call string
  | CallStream string stream
  | UserJoinedVideo peer stream call "string option"
  | UserLeftVideo "string option"

fun step :: "event \<Rightarrow> state \<Rightarrow> state" where
  "step Logout s = handleLogout s"
| "step (DocumentsSettled r) s = documents_resume r s"
| "step (SelectDoc d) s = handleSelectDoc d s"
| "step (SelectDocSettled r) s = handleSelectDoc_resume r s"
| "step (CreateDoc t) s = handleCreateDoc t s"
| "step (CreateDocSettled r) s = handleCreateDoc_resume r s"
| "step (DeleteDoc i) s = handleDeleteDoc i s"
| "step (DeleteDocSettled sel i r) s = handleDeleteDoc_resume sel i r s"
| "step (TypeJoinLink l) s = s\<lparr>joinLink := l, joinError := [], joinSuccess := []\<rparr>"
| "step JoinDocument s = handleJoinDocument s"
| "step (JoinDocumentSettled i r) s = handleJoinDocument_resume i r s"
| "step (EditorChange v) s = handleEditorChange v s"
| "step (SaveSettled r) s = (if pendingSaves s = 0 then s else handleEditorChange_resume r s)"
| "step (DocumentUpdated c) s = (documentUpdated c ^^ docUpdatedListeners s) s"
| "step JoinVideoCall s = handleJoinVideoCall s"
| "step (MediaSettled m p) s = handleJoinVideoCall_resume m p s"
| "step (PeerOpen d p i) s = peerOpen d p i s"
| "step (PeerCall st c r) s = peerCall st c r s"
| "step (CallStream i st) s = callStream i st s"
| "step (UserJoinedVideo p st c i) s = userJoinedVideo p st c i s"
| "step (UserLeftVideo i) s = userLeftVideo i s"

fun run :: "event list \<Rightarrow> state \<Rightarrow> state" where
  "run [] s = s"
| "run (e # es) s = run es (step e s)"

section \<open>Scenarios and observations\<close>

definition docA :: doc where
  "docA = \<lparr>doc_ref = 1, doc_id = ''a'', doc_title = ''A'', doc_content = ''alpha''\<rparr>"

definition docB :: doc where
  "docB = \<lparr>doc_ref = 2, doc_id = ''b'', doc_title = ''B'', doc_content = ''beta''\<rparr>"

definition savedA :: doc where
  \<comment> \<open>Document \<open>a\<close> as the server returns it later.\<close>
  "savedA = \<lparr>doc_ref = 3, doc_id = ''a'', doc_title = ''A'', doc_content = ''alpha, saved''\<rparr>"

definition savedB :: doc where
  "savedB = \<lparr>doc_ref = 4, doc_id = ''b'', doc_title = ''B'', doc_content = ''beta, saved''\<rparr>"

definition loggedIn :: state where
  "loggedIn = mount (Some ''tok'') (Some ''ann'') None"

definition editingA :: state where
  \<comment> \<open>A logged-in user has selected document \<open>a\<close> and its content has arrived.\<close>
  "editingA = run [SelectDoc docA, SelectDocSettled (Response 200 docA)] loggedIn"

definition callInA :: state where
  \<comment> \<open>The user then joins the call: capture succeeds, peer 7 opens as \<open>me-id\<close>, and
      \<open>p1\<close> is announced, called (call 9) and sends its stream.\<close>
  "callInA =
     run [JoinVideoCall, MediaSettled (Media_ok 5) 7, PeerOpen docA 7 ''me-id'',
          UserJoinedVideo 7 5 9 (Some ''p1''), CallStream ''p1'' 6] editingA"

definition listedA :: state where
  \<comment> \<open>As \<open>editingA\<close>, after the document list has arrived.\<close>
  "listedA =
     run [DocumentsSettled (Response 200 (Some [docA, docB])), SelectDoc docA,
          SelectDocSettled (Response 200 docA)] loggedIn"

fun local_turn :: "event \<Rightarrow> bool" where
  \<comment> \<open>A turn of the local-edit handler: its call or the settling of its save request.\<close>
  "local_turn (EditorChange v) = True"
| "local_turn (SaveSettled r) = True"
| "local_turn e = False"

fun edits_of :: "event list \<Rightarrow> string list" where
  \<comment> \<open>The values of the calls of the local-edit handler in a run.\<close>
  "edits_of [] = []"
| "edits_of (EditorChange v # es) = v # edits_of es"
| "edits_of (e # es) = edits_of es"

fun edits_emitted :: "effect list \<Rightarrow> (string \<times> string) list" where
  \<comment> \<open>The \<open>edit-document\<close> events of a trace: document identifier and content.\<close>
  "edits_emitted [] = []"
| "edits_emitted (Emit_edit_document i c # xs) = (i, c) # edits_emitted xs"
| "edits_emitted (x # xs) = edits_emitted xs"

section \<open>Properties\<close>

lemmas handler_defs =
  emit_def documentUpdated_def joinDocumentEffect_def joinDocumentCleanup_def releases_def
  teardown_def selectedDocChanged_def autoSelect_def commit_def mount_def logoutUpdates_def
  handleLogout_def documents_resume_def handleSelectDoc_def handleSelectDoc_resume_def
  handleCreateDoc_def handleCreateDoc_resume_def handleDeleteDoc_def handleDeleteDoc_resume_def
  handleJoinDocument_def joinFailure_def handleJoinDocument_resume_def handleEditorChange_def
  handleEditorChange_resume_def addPeerStream_def handleJoinVideoCall_def
  handleJoinVideoCall_resume_def peerOpen_def peerCall_def userJoinedVideo_def key_of_def
  userLeftVideo_def callStream_def ok_def

subsection \<open>The scenario states, evaluated\<close>

lemma editingA_eq:
  "editingA =
     \<lparr>token = ''tok'', user = Some ''ann'', storedToken = Some ''tok'', storedUser = Some ''ann'',
      documents = [], selectedDoc = Some docA, content = ''alpha'', isRemote = False,
      joinLink = [], joinError = [], joinSuccess = [], inCall = False, myPeer = None,
      myStream = None, peers = [], videoRefs = [], urlDoc = None,
      teardownEnv = (None, None, []), docUpdatedListeners = 1, pendingSaves = 0, peerIds = [],
      trace = [Fetch_documents ''tok'', Fetch_document ''a'' ''tok'', Emit_join_document ''a'']\<rparr>"
  by (simp add: editingA_def loggedIn_def handler_defs docA_def Let_def)

lemma callInA_eq:
  "callInA =
     \<lparr>token = ''tok'', user = Some ''ann'', storedToken = Some ''tok'', storedUser = Some ''ann'',
      documents = [], selectedDoc = Some docA, content = ''alpha'', isRemote = False,
      joinLink = [], joinError = [], joinSuccess = [], inCall = True, myPeer = Some 7,
      myStream = Some 5, peers = [(''p1'', 9)],
      videoRefs =
        [(''me'', \<lparr>srcObject = Some 5, autoplay = True, playsInline = True, muted = True\<rparr>),
         (''p1'', \<lparr>srcObject = Some 6, autoplay = True, playsInline = True, muted = False\<rparr>)],
      urlDoc = None, teardownEnv = (None, None, []), docUpdatedListeners = 1, pendingSaves = 0,
      peerIds = [(7, ''me-id'')],
      trace = [Fetch_documents ''tok'', Fetch_document ''a'' ''tok'', Emit_join_document ''a'',
               Get_user_media, New_peer 7, Emit_join_video ''a'' ''me-id'',
               Peer_call 7 ''p1'' 5 9]\<rparr>"
  by (simp add: callInA_def editingA_eq handler_defs docA_def Let_def)

lemma listedA_eq:
  "listedA =
     \<lparr>token = ''tok'', user = Some ''ann'', storedToken = Some ''tok'', storedUser = Some ''ann'',
      documents = [docA, docB], selectedDoc = Some docA, content = ''alpha'', isRemote = False,
      joinLink = [], joinError = [], joinSuccess = [], inCall = False, myPeer = None,
      myStream = None, peers = [], videoRefs = [], urlDoc = None,
      teardownEnv = (None, None, []), docUpdatedListeners = 1, pendingSaves = 0, peerIds = [],
      trace = [Fetch_documents ''tok'', Fetch_document ''a'' ''tok'', Emit_join_document ''a'']\<rparr>"
  by (simp add: listedA_def loggedIn_def handler_defs docA_def docB_def Let_def)

subsection \<open>Echo suppression\<close>

text \<open>
  Taken by themselves the two handlers do what the flag is for: a remote update sets the
  flag and replaces the buffer, the call of the local-edit handler that follows at once
  emits nothing and clears the flag, and the call after that broadcasts.
\<close>

lemma remote_update_then_edit:
  assumes "selectedDoc s = Some d"
  shows "isRemote (documentUpdated c s)"
    and "content (documentUpdated c s) = c"
    and "trace (handleEditorChange v (documentUpdated c s)) = trace s"
    and "\<not> isRemote (handleEditorChange v (documentUpdated c s))"
    and "trace (handleEditorChange w (handleEditorChange v (documentUpdated c s)))
           = trace s @ [Emit_edit_document (doc_id d) w, Put_document (doc_id d) w (token s)]"
  using assms by (simp_all add: documentUpdated_def handleEditorChange_def emit_def Let_def)

text \<open>
  Claim C1: every remote update suppresses exactly one later call of the local-edit handler,
  which emits no \<open>edit-document\<close> event and clears the flag. The handler clears the flag
  in its last statement, which in a broadcasting call runs only after the awaited save
  request. With document \<open>a\<close> selected: the user types \<open>x\<close> (broadcast, save pending), the
  update \<open>y\<close> arrives, the save settles and clears the flag, and the editor's change event for
  \<open>y\<close> is then broadcast as an edit. Had the change event come before the save settled, it
  would have been suppressed.
\<close>

theorem echo_after_pending_save:
  "trace (run [EditorChange ''x'', DocumentUpdated ''y'', SaveSettled (Response 200 ()),
               EditorChange ''y''] editingA)
     = trace editingA
       @ [Emit_edit_document ''a'' ''x'', Put_document ''a'' ''x'' ''tok'',
          Emit_edit_document ''a'' ''y'', Put_document ''a'' ''y'' ''tok'']
   \<and> trace (run [EditorChange ''x'', DocumentUpdated ''y'', EditorChange ''y'',
                  SaveSettled (Response 200 ())] editingA)
       = trace editingA @ [Emit_edit_document ''a'' ''x'', Put_document ''a'' ''x'' ''tok'']"
  by (simp add: editingA_eq handler_defs docA_def Let_def)

lemma edits_emitted_append: "edits_emitted (xs @ ys) = edits_emitted xs @ edits_emitted ys"
  by (induction xs rule: edits_emitted.induct) simp_all

lemma edits_of_Cons: "edits_of (e # es) = edits_of [e] @ edits_of es"
  by (cases e) simp_all

lemma local_turn_step:
  assumes "selectedDoc s = Some d" "\<not> isRemote s" "local_turn e"
  shows "selectedDoc (step e s) = Some d \<and> \<not> isRemote (step e s)
         \<and> edits_emitted (trace (step e s))
             = edits_emitted (trace s) @ map (Pair (doc_id d)) (edits_of [e])"
  using assms
  by (cases e)
     (simp_all add: handleEditorChange_def handleEditorChange_resume_def emit_def
        edits_emitted_append Let_def split: fetched.splits)

text \<open>
  Claim C2: in a run of calls of the local-edit handler and settlings of their save requests,
  with a document selected and the flag false at the start, the \<open>edit-document\<close> events
  emitted are exactly one per call, in order, each with the document's identifier and the
  call's content.
\<close>

theorem local_edits_broadcast_once:
  assumes "selectedDoc s = Some d" "\<not> isRemote s" "list_all local_turn es"
  shows "edits_emitted (trace (run es s))
           = edits_emitted (trace s) @ map (Pair (doc_id d)) (edits_of es)"
  using assms
proof (induction es arbitrary: s)
  case Nil
  then show ?case by simp
next
  case (Cons e es)
  from Cons.prems have l: "local_turn e" and ls: "list_all local_turn es"
    by simp_all
  note st = local_turn_step [OF Cons.prems(1) Cons.prems(2) l]
  from st have "edits_emitted (trace (run es (step e s)))
                  = edits_emitted (trace (step e s)) @ map (Pair (doc_id d)) (edits_of es)"
    using Cons.IH ls by blast
  with st show ?case
    by (simp add: edits_of_Cons [of e es])
qed

theorem local_edits_broadcast_once_witness:
  "selectedDoc editingA = Some docA \<and> \<not> isRemote editingA
   \<and> list_all local_turn [EditorChange ''x'', SaveSettled (Rejected ''offline''),
                           EditorChange ''xy'', EditorChange ''xyz'', SaveSettled (Response 200 ())]
   \<and> edits_emitted (trace (run [EditorChange ''x'', SaveSettled (Rejected ''offline''),
                                 EditorChange ''xy'', EditorChange ''xyz'',
                                 SaveSettled (Response 200 ())] editingA))
       = [(''a'', ''x''), (''a'', ''xy''), (''a'', ''xyz'')]"
  using local_edits_broadcast_once [of editingA docA
          "[EditorChange ''x'', SaveSettled (Rejected ''offline''), EditorChange ''xy'',
            EditorChange ''xyz'', SaveSettled (Response 200 ())]"]
  by (simp add: editingA_eq docA_def)

subsection \<open>Peers joining and leaving the call\<close>

lemma peers_teardown [simp]: "peers (teardown env s) = []"
  by (simp add: teardown_def emit_def)

lemma peers_joinDocumentEffect [simp]: "peers (joinDocumentEffect s) = peers s"
  by (simp add: joinDocumentEffect_def emit_def split: option.splits)

lemma peers_commit: "peers (commit b before s) = peers s \<or> peers (commit b before s) = []"
  by (simp add: commit_def selectedDocChanged_def joinDocumentCleanup_def emit_def Let_def
        split: option.splits)

lemma distinct_peers_commit:
  "distinct (map fst (peers s)) \<Longrightarrow> distinct (map fst (peers (commit b before s)))"
  using peers_commit [of b before s] by auto

lemma distinct_peers_step:
  "distinct (map fst (peers s)) \<Longrightarrow> distinct (map fst (peers (step e s)))"
proof (cases e)
  case (DocumentUpdated c)
  have "peers ((documentUpdated c ^^ n) s) = peers s" for n
    by (induction n) (simp_all add: documentUpdated_def)
  then show "distinct (map fst (peers s)) \<Longrightarrow> ?thesis"
    by (simp add: DocumentUpdated)
qed (auto simp add: handleLogout_def documents_resume_def handleSelectDoc_def
      handleSelectDoc_resume_def handleCreateDoc_def handleCreateDoc_resume_def
      handleDeleteDoc_def handleDeleteDoc_resume_def handleJoinDocument_def
      handleJoinDocument_resume_def handleEditorChange_def handleEditorChange_resume_def
      addPeerStream_def handleJoinVideoCall_def handleJoinVideoCall_resume_def peerOpen_def
      peerCall_def userJoinedVideo_def userLeftVideo_def callStream_def logoutUpdates_def
      emit_def Let_def distinct_update distinct_delete
      intro!: distinct_peers_commit
      split: fetched.splits option.splits sum.splits media.splits)

text \<open>The \<open>peers\<close> object has one entry per key in every run from the first render.\<close>

lemma distinct_peers_run:
  "distinct (map fst (peers s)) \<Longrightarrow> distinct (map fst (peers (run es s)))"
  by (induction es arbitrary: s) (simp_all add: distinct_peers_step)

lemma distinct_peers_mount: "distinct (map fst (peers (run es (mount tok usr url))))"
  by (rule distinct_peers_run) (simp add: mount_def Let_def)

text \<open>
  Against claim C3 as stated: in the call of document \<open>a\<close>, \<open>p1\<close> already has call 9 in
  \<open>peers\<close>; a second \<open>user-joined-video\<close> for \<open>p1\<close> makes a second outbound call, 10, and
  call 9 is not closed.
\<close>

theorem duplicate_join_calls_again:
  "map_of (peers callInA) ''p1'' = Some 9
   \<and> trace (step (UserJoinedVideo 7 5 10 (Some ''p1'')) callInA)
       = [Fetch_documents ''tok'', Fetch_document ''a'' ''tok'', Emit_join_document ''a'',
          Get_user_media, New_peer 7, Emit_join_video ''a'' ''me-id'',
          Peer_call 7 ''p1'' 5 9, Peer_call 7 ''p1'' 5 10]
   \<and> peers (step (UserJoinedVideo 7 5 10 (Some ''p1'')) callInA) = [(''p1'', 10)]"
  by (simp add: callInA_eq handler_defs)

text \<open>
  Claim C3, amended: the listener ignores a \<open>user-joined-video\<close> notification without a
  peer identifier, with an empty one or with the local peer's own. On any other one, whether
  or not \<open>peers\<close> already has an entry for the peer, it makes exactly one outbound call to
  the peer with the local stream and stores that call under the peer's identifier, leaving
  the other entries as they are. The \<open>peers\<close> object holds one entry per identifier in
  every run.
\<close>

theorem userJoinedVideo_calls:
  "(peerId = None \<or> peerId = Some [] \<or> peerId = map_of (peerIds s) p
      \<longrightarrow> userJoinedVideo p st c peerId s = s)
   \<and> (peerId = Some i \<and> i \<noteq> [] \<and> map_of (peerIds s) p \<noteq> Some i
      \<longrightarrow> trace (userJoinedVideo p st c peerId s) = trace s @ [Peer_call p i st c]
          \<and> map_of (peers (userJoinedVideo p st c peerId s)) = (map_of (peers s))(i \<mapsto> c))
   \<and> distinct (map fst (peers (run es (mount tok usr url))))"
  by (auto simp add: userJoinedVideo_def emit_def update_conv distinct_peers_mount
        split: option.splits)

theorem userJoinedVideo_calls_witness:
  "Some ''me-id'' = map_of (peerIds callInA) 7
   \<and> userJoinedVideo 7 5 10 (Some ''me-id'') callInA = callInA
   \<and> map_of (peerIds callInA) 7 \<noteq> Some ''p2''
   \<and> trace (userJoinedVideo 7 5 10 (Some ''p2'') callInA)
       = trace callInA @ [Peer_call 7 ''p2'' 5 10]
   \<and> map_of (peers (userJoinedVideo 7 5 10 (Some ''p2'') callInA)) ''p2'' = Some 10
   \<and> map_of (peers (userJoinedVideo 7 5 10 (Some ''p2'') callInA)) ''p1'' = Some 9"
  using userJoinedVideo_calls [of "Some ''me-id''" callInA 7 5 10 "''me-id''" "[]" None None None]
    userJoinedVideo_calls [of "Some ''p2''" callInA 7 5 10 "''p2''" "[]" None None None]
  by (simp add: callInA_eq)

text \<open>
  Claim C8: a \<open>user-left-video\<close> notification for a peer with no PeerLink, that is with no
  call in \<open>peers\<close> and no video reference, changes nothing. Without a call in \<open>peers\<close>
  nothing is closed and \<open>peers\<close> stays as it is. With a call in \<open>peers\<close> that call is
  closed. Afterwards the peer has neither a call nor a video reference, and the entries of
  the other peers are untouched.
\<close>

theorem userLeftVideo_absent_noop:
  "(map_of (peers s) (key_of i) = None \<and> map_of (videoRefs s) (key_of i) = None
       \<longrightarrow> userLeftVideo i s = s)
   \<and> (map_of (peers s) (key_of i) = None
       \<longrightarrow> peers (userLeftVideo i s) = peers s \<and> trace (userLeftVideo i s) = trace s)
   \<and> (map_of (peers s) (key_of i) = Some c
       \<longrightarrow> trace (userLeftVideo i s) = trace s @ [Call_close c])
   \<and> map_of (peers (userLeftVideo i s)) = (map_of (peers s))(key_of i := None)
   \<and> map_of (videoRefs (userLeftVideo i s)) = (map_of (videoRefs s))(key_of i := None)"
  by (auto simp add: userLeftVideo_def emit_def Let_def delete_conv split: option.splits)

theorem userLeftVideo_absent_noop_witness:
  "map_of (peers callInA) (key_of (Some ''p2'')) = None
   \<and> map_of (videoRefs callInA) (key_of (Some ''p2'')) = None
   \<and> userLeftVideo (Some ''p2'') callInA = callInA
   \<and> map_of (peers callInA) (key_of (Some ''p1'')) = Some 9
   \<and> trace (userLeftVideo (Some ''p1'') callInA) = trace callInA @ [Call_close 9]
   \<and> map_of (peers (userLeftVideo (Some ''p1'') callInA)) ''p1'' = None
   \<and> map_of (videoRefs (userLeftVideo (Some ''p1'') callInA)) ''p1'' = None"
  using userLeftVideo_absent_noop [of callInA "Some ''p2''" 0]
    userLeftVideo_absent_noop [of callInA "Some ''p1''" 9]
  by (simp add: callInA_eq key_of_def)

subsection \<open>Joining the call\<close>

text \<open>
  Against claim C4 as stated: joining sets \<open>inCall\<close> when the handler is called, while the
  capture request is pending and no stream exists; when the capture then fails it is reset.
\<close>

theorem inCall_before_media:
  "\<not> inCall editingA
   \<and> inCall (step JoinVideoCall editingA)
   \<and> myStream (step JoinVideoCall editingA) = None
   \<and> trace (step JoinVideoCall editingA) = trace editingA @ [Get_user_media]
   \<and> \<not> inCall (run [JoinVideoCall, MediaSettled Media_failed 7] editingA)
   \<and> myStream (run [JoinVideoCall, MediaSettled Media_failed 7] editingA) = None"
  by (simp add: editingA_eq handler_defs)

text \<open>
  Claim C4, amended: a join when \<open>inCall\<close> is already true or no document is selected does
  nothing, so no second session is started while one is marked active. Otherwise \<open>inCall\<close>
  becomes true at once, before local media acquisition completes, and the capture is
  requested. When the capture fails \<open>inCall\<close> is reset to false and no stream or peer is
  recorded; when it succeeds \<open>inCall\<close> is left as it is and the stream and the peer are
  recorded.
\<close>

theorem handleJoinVideoCall_inCall:
  "(inCall s \<or> selectedDoc s = None \<longrightarrow> handleJoinVideoCall s = s)
   \<and> (\<not> inCall s \<and> selectedDoc s \<noteq> None
        \<longrightarrow> inCall (handleJoinVideoCall s)
            \<and> trace (handleJoinVideoCall s) = trace s @ [Get_user_media]
            \<and> myStream (handleJoinVideoCall s) = myStream s
            \<and> myPeer (handleJoinVideoCall s) = myPeer s)
   \<and> \<not> inCall (handleJoinVideoCall_resume Media_failed p s)
   \<and> myStream (handleJoinVideoCall_resume Media_failed p s) = myStream s
   \<and> myPeer (handleJoinVideoCall_resume Media_failed p s) = myPeer s
   \<and> inCall (handleJoinVideoCall_resume (Media_ok st) p s) = inCall s
   \<and> myStream (handleJoinVideoCall_resume (Media_ok st) p s) = Some st
   \<and> myPeer (handleJoinVideoCall_resume (Media_ok st) p s) = Some p"
  by (simp add: handleJoinVideoCall_def handleJoinVideoCall_resume_def addPeerStream_def
        emit_def Let_def)

theorem handleJoinVideoCall_inCall_witness:
  "inCall callInA \<and> handleJoinVideoCall callInA = callInA
   \<and> \<not> inCall editingA \<and> selectedDoc editingA \<noteq> None
   \<and> inCall (handleJoinVideoCall editingA)
   \<and> trace (handleJoinVideoCall editingA) = trace editingA @ [Get_user_media]
   \<and> myStream (handleJoinVideoCall editingA) = None
   \<and> \<not> inCall (handleJoinVideoCall_resume Media_failed 7 (handleJoinVideoCall editingA))
   \<and> myStream (handleJoinVideoCall_resume (Media_ok 5) 7 (handleJoinVideoCall editingA)) = Some 5"
  using handleJoinVideoCall_inCall [of callInA 7 5]
    handleJoinVideoCall_inCall [of editingA 7 5]
    handleJoinVideoCall_inCall [of "handleJoinVideoCall editingA" 7 5]
  by (simp add: callInA_eq editingA_eq)

subsection \<open>Switching documents\<close>

text \<open>
  What a switch to another document does, for any state: the content request, then the
  releases of the values that the clean-up closure captured when the previous document was
  selected, then \<open>join-document\<close>. The closure made by this render captures the values of
  this render. Joining a call afterwards does not renew it.
\<close>

lemma select_other_doc:
  assumes "selectedDoc s \<noteq> Some d"
  shows "trace (handleSelectDoc d s)
           = trace s @ [Fetch_document (doc_id d) (token s)] @ releases (teardownEnv s)
             @ [Emit_join_document (doc_id d)]"
    and "teardownEnv (handleSelectDoc d s) = (myPeer s, myStream s, peers s)"
  using assms
  by (simp_all add: handleSelectDoc_def commit_def teardown_def joinDocumentCleanup_def
        joinDocumentEffect_def emit_def Let_def)

lemma call_keeps_teardownEnv:
  "teardownEnv (handleJoinVideoCall s) = teardownEnv s"
  "teardownEnv (handleJoinVideoCall_resume m p s) = teardownEnv s"
  "teardownEnv (peerOpen d p i s) = teardownEnv s"
  "teardownEnv (peerCall st c r s) = teardownEnv s"
  "teardownEnv (callStream r st s) = teardownEnv s"
  "teardownEnv (userJoinedVideo p st c k s) = teardownEnv s"
  "teardownEnv (userLeftVideo k s) = teardownEnv s"
  by (simp_all add: handleJoinVideoCall_def handleJoinVideoCall_resume_def peerOpen_def
        peerCall_def callStream_def userJoinedVideo_def userLeftVideo_def addPeerStream_def
        emit_def Let_def split: media.splits option.splits)

text \<open>
  Claim C5: on a switch from document \<open>a\<close> to \<open>b\<close> while a call is active in \<open>a\<close>, the peer
  is destroyed, the local tracks are stopped and every call is closed before
  \<open>join-document\<close> for \<open>b\<close> is emitted. In the run below the call of \<open>a\<close> is active (peer 7,
  stream 5, call 9 to \<open>p1\<close>) and the user selects \<open>b\<close>: nothing is released before
  \<open>join-document\<close> for \<open>b\<close>, because the clean-up closure dates from the selection of \<open>a\<close>,
  when there was no call. The peer, the stream and the call are released only by the next
  switch.
\<close>

theorem switch_keeps_call_open:
  "inCall callInA \<and> myPeer callInA = Some 7 \<and> myStream callInA = Some 5
   \<and> peers callInA = [(''p1'', 9)]
   \<and> trace (step (SelectDoc docB) callInA)
       = trace callInA @ [Fetch_document ''b'' ''tok'', Emit_join_document ''b'']
   \<and> trace (run [SelectDoc docB, SelectDoc docA] callInA)
       = trace callInA
         @ [Fetch_document ''b'' ''tok'', Emit_join_document ''b'',
            Fetch_document ''a'' ''tok'', Peer_destroy 7, Tracks_stop 5, Call_close 9,
            Emit_join_document ''a'']"
  by (simp add: callInA_eq handler_defs docA_def docB_def Let_def)

text \<open>
  Against claim C6 as stated: the user selects \<open>a\<close> and then \<open>b\<close>; the content of \<open>b\<close>
  arrives, then the late content of \<open>a\<close>. The buffer shows the content of \<open>a\<close> while \<open>b\<close> is
  selected.
\<close>

theorem stale_fetch_overwrites:
  "selectedDoc (run [SelectDoc docA, SelectDoc docB, SelectDocSettled (Response 200 savedB),
                     SelectDocSettled (Response 200 savedA)] loggedIn) = Some docB
   \<and> content (run [SelectDoc docA, SelectDoc docB, SelectDocSettled (Response 200 savedB),
                   SelectDocSettled (Response 200 savedA)] loggedIn) = ''alpha, saved''"
  by (simp add: loggedIn_def handler_defs docA_def docB_def savedA_def savedB_def Let_def)

text \<open>
  Claim C6, amended: when the content request started by selecting a document completes,
  its result is applied without a check of the current selection: a response replaces the
  visible buffer with the content it carries, a failure clears the buffer, whichever document
  is selected by then, and the selection is left as it is.
\<close>

theorem handleSelectDoc_resume_unchecked:
  "content (handleSelectDoc_resume (Response st data) s) = doc_content data
   \<and> content (handleSelectDoc_resume (Rejected msg) s) = []
   \<and> selectedDoc (handleSelectDoc_resume r s) = selectedDoc s"
  by (simp add: handleSelectDoc_resume_def emit_def split: fetched.splits)

theorem handleSelectDoc_resume_unchecked_witness:
  "content (handleSelectDoc_resume (Response 200 savedB) editingA) = ''beta, saved''
   \<and> content (handleSelectDoc_resume (Rejected ''offline'') editingA) = []
   \<and> selectedDoc (handleSelectDoc_resume (Response 200 savedB) editingA) = Some docA"
  using handleSelectDoc_resume_unchecked [of 200 savedB editingA "''offline''" "Response 200 savedB"]
  by (simp add: editingA_eq savedB_def)

subsection \<open>Unauthorised responses\<close>

lemma resolve_link_b: "resolveJoinLink ''https://host/?doc=b'' = Inr ''b''"
  by code_simp

lemma trim_link_b: "trim ''https://host/?doc=b'' \<noteq> []"
  by code_simp

text \<open>
  Against claim C7 as stated: the user joins by link and the request for the document is
  answered with 401. The token and the user stay stored; the handler only shows its message.
\<close>

theorem join_401_keeps_session:
  "token (run [TypeJoinLink ''https://host/?doc=b'', JoinDocument,
               JoinDocumentSettled ''b'' (Response 401 docB)] editingA) = ''tok''
   \<and> storedToken (run [TypeJoinLink ''https://host/?doc=b'', JoinDocument,
                        JoinDocumentSettled ''b'' (Response 401 docB)] editingA) = Some ''tok''
   \<and> storedUser (run [TypeJoinLink ''https://host/?doc=b'', JoinDocument,
                       JoinDocumentSettled ''b'' (Response 401 docB)] editingA) = Some ''ann''
   \<and> trace (run [TypeJoinLink ''https://host/?doc=b'', JoinDocument,
                  JoinDocumentSettled ''b'' (Response 401 docB)] editingA)
       = trace editingA @ [Fetch_document ''b'' ''tok'', Console_error ''Join document error:'']"
  by (simp add: editingA_eq handler_defs docA_def docB_def Let_def resolve_link_b trim_link_b)

text \<open>
  Claim C7, amended: a 401 response to the request for the document list performs the local
  logout: token and user are cleared, in the state and in storage, with the selection, the
  buffer and the list. A 401 response to the request made by joining by link performs no
  logout: token, user and selection stay and the message about missing access is shown.
\<close>

theorem unauthorized_list_logs_out:
  "token (documents_resume (Response 401 body) s) = []
   \<and> user (documents_resume (Response 401 body) s) = None
   \<and> storedToken (documents_resume (Response 401 body) s) = None
   \<and> storedUser (documents_resume (Response 401 body) s) = None
   \<and> selectedDoc (documents_resume (Response 401 body) s) = None
   \<and> content (documents_resume (Response 401 body) s) = []
   \<and> documents (documents_resume (Response 401 body) s) = []
   \<and> token (handleJoinDocument_resume docId (Response 401 data) s) = token s
   \<and> user (handleJoinDocument_resume docId (Response 401 data) s) = user s
   \<and> storedToken (handleJoinDocument_resume docId (Response 401 data) s) = storedToken s
   \<and> storedUser (handleJoinDocument_resume docId (Response 401 data) s) = storedUser s
   \<and> selectedDoc (handleJoinDocument_resume docId (Response 401 data) s) = selectedDoc s
   \<and> joinError (handleJoinDocument_resume docId (Response 401 data) s)
       = ''You do not have access to this document.''"
  by (simp add: documents_resume_def handleJoinDocument_resume_def logoutUpdates_def commit_def
        autoSelect_def teardown_def joinDocumentCleanup_def joinDocumentEffect_def emit_def
        ok_def joinFailure_def Let_def)

theorem unauthorized_list_logs_out_witness:
  "token (documents_resume (Response 401 None) editingA) = []
   \<and> storedToken (documents_resume (Response 401 None) editingA) = None
   \<and> storedUser (documents_resume (Response 401 None) editingA) = None
   \<and> selectedDoc (documents_resume (Response 401 None) editingA) = None
   \<and> token (handleJoinDocument_resume ''b'' (Response 401 docB) editingA) = ''tok''
   \<and> storedToken (handleJoinDocument_resume ''b'' (Response 401 docB) editingA) = Some ''tok''"
  using unauthorized_list_logs_out [of None editingA "''b''" docB]
  by (simp add: editingA_eq)

subsection \<open>Deleting a document\<close>

lemma find_filter_id:
  "find (\<lambda>d. doc_id d = i) (filter (\<lambda>d. doc_id d \<noteq> j) ds) = Some y \<Longrightarrow> doc_id y \<noteq> j"
  by (induction ds) (auto split: if_splits)

lemma selectedDoc_teardown [simp]: "selectedDoc (teardown env s) = selectedDoc s"
  by (simp add: teardown_def emit_def)

lemma documents_teardown [simp]: "documents (teardown env s) = documents s"
  by (simp add: teardown_def emit_def)

lemma selectedDoc_joinDocumentEffect [simp]:
  "selectedDoc (joinDocumentEffect s) = selectedDoc s"
  by (simp add: joinDocumentEffect_def emit_def split: option.splits)

lemma documents_joinDocumentEffect [simp]: "documents (joinDocumentEffect s) = documents s"
  by (simp add: joinDocumentEffect_def emit_def split: option.splits)

lemma documents_commit: "documents (commit b before s) = documents s"
  by (simp add: commit_def selectedDocChanged_def joinDocumentCleanup_def emit_def Let_def
        split: option.splits)

lemma selectedDoc_commit:
  "selectedDoc (commit b before s)
     = (case (if b then autoSelect s else None) of None \<Rightarrow> selectedDoc s | Some d \<Rightarrow> Some d)"
  by (simp add: commit_def selectedDocChanged_def joinDocumentCleanup_def emit_def Let_def
        split: option.splits)

text \<open>
  Claim C10: when the delete request settles, the document is removed from the local list
  whether the request succeeded or failed, and the outcome makes no difference to the
  selection either. If the deleted document was the selected one when the handler was
  called, no document with its identifier is selected afterwards; the selection is then
  empty unless the page URL names another document of the list, which the first effect
  selects.
\<close>

theorem handleDeleteDoc_removes:
  "documents (handleDeleteDoc_resume sel docId r s)
     = filter (\<lambda>d. doc_id d \<noteq> docId) (documents s)
   \<and> selectedDoc (handleDeleteDoc_resume sel docId r s)
       = selectedDoc (handleDeleteDoc_resume sel docId r' s)
   \<and> (sel = Some d \<and> doc_id d = docId
        \<and> selectedDoc (handleDeleteDoc_resume sel docId r s) = Some d'
        \<longrightarrow> doc_id d' \<noteq> docId)
   \<and> (sel = Some d \<and> doc_id d = docId \<and> urlDoc s = None
        \<longrightarrow> selectedDoc (handleDeleteDoc_resume sel docId r s) = None)"
proof (intro conjI)
  show "documents (handleDeleteDoc_resume sel docId r s)
          = filter (\<lambda>d. doc_id d \<noteq> docId) (documents s)"
    by (simp add: handleDeleteDoc_resume_def documents_commit emit_def Let_def
          split: fetched.splits option.splits)
  show "selectedDoc (handleDeleteDoc_resume sel docId r s)
          = selectedDoc (handleDeleteDoc_resume sel docId r' s)"
    by (simp add: handleDeleteDoc_resume_def selectedDoc_commit autoSelect_def emit_def Let_def
          split: fetched.splits option.splits)
  show "sel = Some d \<and> doc_id d = docId
          \<and> selectedDoc (handleDeleteDoc_resume sel docId r s) = Some d'
        \<longrightarrow> doc_id d' \<noteq> docId"
    by (auto simp add: handleDeleteDoc_resume_def selectedDoc_commit autoSelect_def emit_def
          Let_def split: fetched.splits option.splits if_splits dest: find_filter_id)
  show "sel = Some d \<and> doc_id d = docId \<and> urlDoc s = None
        \<longrightarrow> selectedDoc (handleDeleteDoc_resume sel docId r s) = None"
    by (auto simp add: handleDeleteDoc_resume_def selectedDoc_commit autoSelect_def emit_def
          Let_def split: fetched.splits option.splits if_splits)
qed

theorem handleDeleteDoc_removes_witness:
  "doc_id docA = ''a'' \<and> urlDoc listedA = None
   \<and> documents (handleDeleteDoc_resume (Some docA) ''a'' (Rejected ''offline'') listedA) = [docB]
   \<and> selectedDoc (handleDeleteDoc_resume (Some docA) ''a'' (Rejected ''offline'') listedA) = None
   \<and> selectedDoc (handleDeleteDoc_resume (Some docA) ''a'' (Response 200 ()) listedA) = None"
proof -
  note t = handleDeleteDoc_removes [where sel = "Some docA" and docId = "''a''"
      and r = "Rejected ''offline''" and r' = "Response 200 ()" and s = listedA
      and d = docA and d' = docB]
  have i: "doc_id docA = ''a''"
    by (simp add: docA_def)
  have u: "urlDoc listedA = None"
    by (simp add: listedA_eq)
  have f: "filter (\<lambda>d. doc_id d \<noteq> ''a'') (documents listedA) = [docB]"
    by (simp add: listedA_eq docA_def docB_def)
  from t f
  have d: "documents (handleDeleteDoc_resume (Some docA) ''a'' (Rejected ''offline'') listedA)
             = [docB]"
    by (simp only:)
  from t i u
  have n: "selectedDoc (handleDeleteDoc_resume (Some docA) ''a'' (Rejected ''offline'') listedA)
             = None"
    by blast
  from t n
  have "selectedDoc (handleDeleteDoc_resume (Some docA) ''a'' (Response 200 ()) listedA) = None"
    by (simp only:)
  with i u d n show ?thesis
    by (simp only: simp_thms)
qed

subsection \<open>Resolving a join link\<close>

text \<open>\<open>includes_str\<close> is the library's notion of a contiguous sublist.\<close>

lemma includes_str_sublist: "includes_str s sub \<longleftrightarrow> sublist sub s"
  by (induction s) (simp_all add: sublist_Cons_right)

lemma includes_str_append: "includes_str (pre @ sep @ rest) sep"
  by (simp add: includes_str_sublist)

lemma trim_Nil_iff: "trim s = [] \<longleftrightarrow> (\<forall>c \<in> set s. is_space c)"
proof
  assume "trim s = []"
  then have "dropWhile is_space (rev (dropWhile is_space s)) = []"
    by (simp add: trim_def)
  then have "\<forall>c \<in> set (dropWhile is_space s). is_space c"
    by (auto simp add: dropWhile_eq_Nil_conv dest: set_dropWhileD)
  then have "dropWhile is_space s = []"
    by (metis hd_dropWhile hd_in_set)
  then show "\<forall>c \<in> set s. is_space c"
    by (simp add: dropWhile_eq_Nil_conv)
next
  assume "\<forall>c \<in> set s. is_space c"
  then have e: "dropWhile is_space s = []"
    by (simp add: dropWhile_eq_Nil_conv)
  show "trim s = []"
    by (simp only: trim_def e rev.simps dropWhile.simps)
qed

lemma trim_nonempty: "c \<in> set l \<Longrightarrow> \<not> is_space c \<Longrightarrow> trim l \<noteq> []"
  by (auto simp add: trim_Nil_iff)

lemma split_from_not_Nil: "split_from sep acc s \<noteq> []"
  by (induction sep acc s rule: split_from.induct) simp_all

lemma split_from_none: "\<not> includes_str s sep \<Longrightarrow> split_from sep acc s = [rev acc @ s]"
  by (induction s arbitrary: acc) auto

lemma prefix_shorter: "prefix xs (us @ vs) \<Longrightarrow> length xs \<le> length us \<Longrightarrow> prefix xs us"
  by (metis prefix_length_prefix prefix_append prefixI append_prefixD
        prefix_order.dual_order.refl)

text \<open>
  When the separator first occurs right after \<open>pre\<close>, the first piece is \<open>pre\<close> and
  splitting goes on behind the separator.
\<close>

lemma split_from_first:
  assumes "sep \<noteq> []" "\<not> includes_str (pre @ butlast sep) sep"
  shows "split_from sep acc (pre @ sep @ rest) = (rev acc @ pre) # split_from sep [] rest"
  using assms(2)
proof (induction pre arbitrary: acc)
  case Nil
  from assms(1) obtain c cs where sep: "sep = c # cs"
    by (cases sep) auto
  show ?case by (simp add: sep)
next
  case (Cons x xs)
  from Cons.prems have np: "\<not> prefix sep ((x # xs) @ butlast sep)"
    and ni: "\<not> includes_str (xs @ butlast sep) sep"
    by simp_all
  have "(x # xs) @ sep @ rest = ((x # xs) @ butlast sep) @ (last sep # rest)"
    using assms(1) by simp
  moreover have "length sep \<le> length ((x # xs) @ butlast sep)"
    using assms(1) by simp
  ultimately have "\<not> prefix sep ((x # xs) @ sep @ rest)"
    using np prefix_shorter by metis
  then have "split_from sep acc ((x # xs) @ sep @ rest)
               = split_from sep (x # acc) (xs @ sep @ rest)"
    by simp
  also have "\<dots> = (rev (x # acc) @ xs) # split_from sep [] rest"
    using Cons.IH [OF ni] .
  finally show ?case by simp
qed

lemma split_js_second:
  assumes "sep \<noteq> []" "\<not> includes_str (pre @ butlast sep) sep"
  shows "nth_opt (split_js (pre @ sep @ rest) sep) 1 = Some (hd (split_from sep [] rest))"
proof -
  have "split_js (pre @ sep @ rest) sep = pre # split_from sep [] rest"
    using assms by (simp add: split_js_def split_from_first)
  moreover have "split_from sep [] rest \<noteq> []"
    by (rule split_from_not_Nil)
  ultimately show ?thesis
    by (simp add: nth_opt_def hd_conv_nth)
qed

lemma hd_split_last: "\<not> includes_str d sep \<Longrightarrow> hd (split_from sep [] d) = d"
  by (simp add: split_from_none)

lemma hd_split_next:
  "sep \<noteq> [] \<Longrightarrow> \<not> includes_str (d @ butlast sep) sep
     \<Longrightarrow> hd (split_from sep [] (d @ sep @ rest)) = d"
  by (simp add: split_from_first)

lemma extract_query:
  assumes "\<not> includes_str (pre @ ''?doc'') ''?doc=''"
  shows "extractDocId (pre @ ''?doc='' @ rest) = Some (hd (split_from ''?doc='' [] rest))"
    and "trim (pre @ ''?doc='' @ rest) \<noteq> []"
proof -
  have "includes_str (pre @ ''?doc='' @ rest) ''?doc=''"
    by (rule includes_str_append)
  moreover have "nth_opt (split_js (pre @ ''?doc='' @ rest) ''?doc='') 1
                   = Some (hd (split_from ''?doc='' [] rest))"
    by (rule split_js_second) (use assms in simp_all)
  ultimately show "extractDocId (pre @ ''?doc='' @ rest)
                     = Some (hd (split_from ''?doc='' [] rest))"
    by (simp add: extractDocId_def)
  show "trim (pre @ ''?doc='' @ rest) \<noteq> []"
    by (rule trim_nonempty [of "CHR ''?''"]) (simp_all add: is_space_def)
qed

lemma extract_path:
  assumes "\<not> includes_str (pre @ ''/documents/'' @ rest) ''?doc=''"
    and "\<not> includes_str (pre @ ''/documents'') ''/documents/''"
  shows "extractDocId (pre @ ''/documents/'' @ rest)
           = Some (hd (split_from ''/documents/'' [] rest))"
    and "trim (pre @ ''/documents/'' @ rest) \<noteq> []"
proof -
  have "includes_str (pre @ ''/documents/'' @ rest) ''/documents/''"
    by (rule includes_str_append)
  moreover have "nth_opt (split_js (pre @ ''/documents/'' @ rest) ''/documents/'') 1
                   = Some (hd (split_from ''/documents/'' [] rest))"
    by (rule split_js_second) (use assms in simp_all)
  ultimately show "extractDocId (pre @ ''/documents/'' @ rest)
                     = Some (hd (split_from ''/documents/'' [] rest))"
    using assms(1) by (simp add: extractDocId_def)
  show "trim (pre @ ''/documents/'' @ rest) \<noteq> []"
    by (rule trim_nonempty [of "CHR ''/''"]) (simp_all add: is_space_def)
qed

text \<open>
  Against claim C9 as stated: a link that contains \<open>/documents/\<close> and also \<open>?doc=\<close>
  resolves to what follows \<open>?doc=\<close>, not to what follows \<open>/documents/\<close>; when \<open>?doc=\<close>
  occurs twice the result stops at the second occurrence; a link that ends with \<open>?doc=\<close>
  and a non-empty input of white space resolve to no identifier at all.
\<close>

theorem link_not_substring_after:
  "includes_str ''https://host/documents/abc?doc=xyz'' ''/documents/''
   \<and> resolveJoinLink ''https://host/documents/abc?doc=xyz'' = Inr ''xyz''
   \<and> includes_str ''https://host/?doc=abc?doc=xyz'' ''?doc=''
   \<and> resolveJoinLink ''https://host/?doc=abc?doc=xyz'' = Inr ''abc''
   \<and> resolveJoinLink ''https://host/?doc=''
       = Inl ''Invalid link format. Please check the shared link.''
   \<and> resolveJoinLink '' '' = Inl ''Please enter a shared link''"
  by code_simp

text \<open>
  Claim C9, amended: the resolver is a function of the link alone. A link of white space
  only is refused. A link in which \<open>?doc=\<close> first occurs after \<open>pre\<close> resolves to the text
  \<open>d\<close> between that occurrence and the next occurrence of \<open>?doc=\<close>, or the end of the link
  when there is none, so to the whole substring after it when \<open>?doc=\<close> occurs once; the same
  holds for \<open>/documents/\<close> in a link without \<open>?doc=\<close>; in both cases an empty \<open>d\<close> is
  refused as an invalid link. Any other link that is not white space resolves to the
  trimmed link. The two links of the scenario resolve to \<open>abc123\<close>.
\<close>

theorem resolveJoinLink_cases:
  "(trim l = [] \<longrightarrow> resolveJoinLink l = Inl ''Please enter a shared link'')
   \<and> (\<not> includes_str (pre @ ''?doc'') ''?doc='' \<and> \<not> includes_str d ''?doc=''
        \<longrightarrow> resolveJoinLink (pre @ ''?doc='' @ d) = (if d = [] then Inl invalidLink else Inr d))
   \<and> (\<not> includes_str (pre @ ''?doc'') ''?doc='' \<and> \<not> includes_str (d @ ''?doc'') ''?doc=''
        \<longrightarrow> resolveJoinLink (pre @ ''?doc='' @ d @ ''?doc='' @ rest)
              = (if d = [] then Inl invalidLink else Inr d))
   \<and> (\<not> includes_str (pre @ ''/documents/'' @ d) ''?doc=''
       \<and> \<not> includes_str (pre @ ''/documents'') ''/documents/''
       \<and> \<not> includes_str d ''/documents/''
        \<longrightarrow> resolveJoinLink (pre @ ''/documents/'' @ d)
              = (if d = [] then Inl invalidLink else Inr d))
   \<and> (\<not> includes_str (pre @ ''/documents/'' @ d @ ''/documents/'' @ rest) ''?doc=''
       \<and> \<not> includes_str (pre @ ''/documents'') ''/documents/''
       \<and> \<not> includes_str (d @ ''/documents'') ''/documents/''
        \<longrightarrow> resolveJoinLink (pre @ ''/documents/'' @ d @ ''/documents/'' @ rest)
              = (if d = [] then Inl invalidLink else Inr d))
   \<and> (\<not> includes_str l ''?doc='' \<and> \<not> includes_str l ''/documents/'' \<and> trim l \<noteq> []
        \<longrightarrow> resolveJoinLink l = Inr (trim l))
   \<and> resolveJoinLink ''https://host/?doc=abc123'' = Inr ''abc123''
   \<and> resolveJoinLink ''https://host/documents/abc123'' = Inr ''abc123''"
proof (intro conjI impI)
  assume "trim l = []"
  then show "resolveJoinLink l = Inl ''Please enter a shared link''"
    by (simp add: resolveJoinLink_def)
next
  assume "\<not> includes_str (pre @ ''?doc'') ''?doc='' \<and> \<not> includes_str d ''?doc=''"
  then show "resolveJoinLink (pre @ ''?doc='' @ d) = (if d = [] then Inl invalidLink else Inr d)"
    using extract_query [of pre d] hd_split_last [of d "''?doc=''"]
    by (simp add: resolveJoinLink_def)
next
  assume "\<not> includes_str (pre @ ''?doc'') ''?doc='' \<and> \<not> includes_str (d @ ''?doc'') ''?doc=''"
  then show "resolveJoinLink (pre @ ''?doc='' @ d @ ''?doc='' @ rest)
               = (if d = [] then Inl invalidLink else Inr d)"
    using extract_query [of pre "d @ ''?doc='' @ rest"] hd_split_next [of "''?doc=''" d rest]
    by (simp add: resolveJoinLink_def)
next
  assume "\<not> includes_str (pre @ ''/documents/'' @ d) ''?doc=''
          \<and> \<not> includes_str (pre @ ''/documents'') ''/documents/''
          \<and> \<not> includes_str d ''/documents/''"
  then show "resolveJoinLink (pre @ ''/documents/'' @ d)
               = (if d = [] then Inl invalidLink else Inr d)"
    using extract_path [of pre d] hd_split_last [of d "''/documents/''"]
    by (simp add: resolveJoinLink_def)
next
  assume "\<not> includes_str (pre @ ''/documents/'' @ d @ ''/documents/'' @ rest) ''?doc=''
          \<and> \<not> includes_str (pre @ ''/documents'') ''/documents/''
          \<and> \<not> includes_str (d @ ''/documents'') ''/documents/''"
  then show "resolveJoinLink (pre @ ''/documents/'' @ d @ ''/documents/'' @ rest)
               = (if d = [] then Inl invalidLink else Inr d)"
    using extract_path [of pre "d @ ''/documents/'' @ rest"]
      hd_split_next [of "''/documents/''" d rest]
    by (simp add: resolveJoinLink_def)
next
  assume "\<not> includes_str l ''?doc='' \<and> \<not> includes_str l ''/documents/'' \<and> trim l \<noteq> []"
  then show "resolveJoinLink l = Inr (trim l)"
    by (simp add: resolveJoinLink_def extractDocId_def)
next
  show "resolveJoinLink ''https://host/?doc=abc123'' = Inr ''abc123''"
    by code_simp
next
  show "resolveJoinLink ''https://host/documents/abc123'' = Inr ''abc123''"
    by code_simp
qed

theorem resolveJoinLink_cases_witness:
  "\<not> includes_str (''https://host/'' @ ''?doc'') ''?doc=''
   \<and> \<not> includes_str (''abc123'' @ ''?doc'') ''?doc=''
   \<and> resolveJoinLink (''https://host/'' @ ''?doc='' @ ''abc123'' @ ''?doc='' @ ''x'') = Inr ''abc123''
   \<and> \<not> includes_str (''https://host/'' @ ''/documents/'' @ ''abc123'') ''?doc=''
   \<and> \<not> includes_str (''https://host/'' @ ''/documents'') ''/documents/''
   \<and> \<not> includes_str ''abc123'' ''/documents/''
   \<and> resolveJoinLink (''https://host/'' @ ''/documents/'' @ ''abc123'') = Inr ''abc123''
   \<and> \<not> includes_str '' abc123 '' ''?doc='' \<and> \<not> includes_str '' abc123 '' ''/documents/''
   \<and> trim '' abc123 '' \<noteq> []
   \<and> resolveJoinLink '' abc123 '' = Inr ''abc123''"
proof -
  note t = resolveJoinLink_cases [where l = "'' abc123 ''" and pre = "''https://host/''"
      and d = "''abc123''" and rest = "''x''"]
  have q1: "\<not> includes_str (''https://host/'' @ ''?doc'') ''?doc=''"
    by code_simp
  have q2: "\<not> includes_str (''abc123'' @ ''?doc'') ''?doc=''"
    by code_simp
  have p1: "\<not> includes_str (''https://host/'' @ ''/documents/'' @ ''abc123'') ''?doc=''"
    by code_simp
  have p2: "\<not> includes_str (''https://host/'' @ ''/documents'') ''/documents/''"
    by code_simp
  have p3: "\<not> includes_str ''abc123'' ''/documents/''"
    by code_simp
  have r1: "\<not> includes_str '' abc123 '' ''?doc=''"
    by code_simp
  have r2: "\<not> includes_str '' abc123 '' ''/documents/''"
    by code_simp
  have r3: "trim '' abc123 '' = ''abc123''"
    by code_simp
  have ne: "''abc123'' \<noteq> []"
    by simp
  from t q1 q2
  have a: "resolveJoinLink (''https://host/'' @ ''?doc='' @ ''abc123'' @ ''?doc='' @ ''x'')
             = (if ''abc123'' = [] then Inl invalidLink else Inr ''abc123'')"
    by blast
  from t p1 p2 p3
  have b: "resolveJoinLink (''https://host/'' @ ''/documents/'' @ ''abc123'')
             = (if ''abc123'' = [] then Inl invalidLink else Inr ''abc123'')"
    by blast
  from t r1 r2 r3 ne
  have c: "resolveJoinLink '' abc123 '' = Inr (trim '' abc123 '')"
    by (metis (no_types))
  from a ne have a': "resolveJoinLink (''https://host/'' @ ''?doc='' @ ''abc123'' @ ''?doc='' @ ''x'')
             = Inr ''abc123''"
    by (simp only: if_False)
  from b ne have b': "resolveJoinLink (''https://host/'' @ ''/documents/'' @ ''abc123'')
             = Inr ''abc123''"
    by (simp only: if_False)
  from c r3 have c': "resolveJoinLink '' abc123 '' = Inr ''abc123''"
    by (simp only:)
  have r3': "trim '' abc123 '' \<noteq> []"
    by code_simp
  from q1 q2 a' p1 p2 p3 b' r1 r2 r3' c' show ?thesis
    by (simp only: simp_thms)
qed

end
